theory Spec2Isabelle
  imports Complex_Main
begin

section \<open>Strings and character classes\<close>

text \<open>
  A JavaScript string is a sequence of UTF-16 code units. The model works on \<^typ>\<open>string\<close>,
  reading each \<^typ>\<open>char\<close> as the code unit with the same number, so it covers the code
  units 0 to 255 (Latin-1). The character classes below are the ECMAScript ones cut down to
  that range.
\<close>

definition code_unit :: "char \<Rightarrow> nat" where
  "code_unit c = of_char c"

text \<open>\<open>\s\<close> and the characters removed by \<open>trim()\<close>: TAB, LF, VT, FF, CR, space, NBSP.\<close>

definition is_space :: "char \<Rightarrow> bool" where
  "is_space c = (let n = code_unit c in
     n = 9 \<or> n = 10 \<or> n = 11 \<or> n = 12 \<or> n = 13 \<or> n = 32 \<or> n = 160)"

text \<open>\<open>\S\<close>\<close>

definition is_nonspace :: "char \<Rightarrow> bool" where
  "is_nonspace c = (\<not> is_space c)"

definition is_line_terminator :: "char \<Rightarrow> bool" where
  "is_line_terminator c = (let n = code_unit c in n = 10 \<or> n = 13)"

text \<open>The dot of a regular expression without the \<open>s\<close> flag.\<close>

definition is_dot :: "char \<Rightarrow> bool" where
  "is_dot c = (\<not> is_line_terminator c)"

definition is_digit :: "char \<Rightarrow> bool" where
  "is_digit c = (let n = code_unit c in 48 \<le> n \<and> n \<le> 57)"

text \<open>\<open>\w\<close> is \<open>[A-Za-z0-9_]\<close>.\<close>

definition is_word :: "char \<Rightarrow> bool" where
  "is_word c = (let n = code_unit c in
     (65 \<le> n \<and> n \<le> 90) \<or> (97 \<le> n \<and> n \<le> 122) \<or> (48 \<le> n \<and> n \<le> 57) \<or> n = 95)"

text \<open>
  \<open>String.prototype.toLowerCase\<close> on one code unit: A to Z, and the Latin-1 capitals
  0xC0 to 0xDE except the multiplication sign 0xD7, move up by 32.
\<close>

definition lower_char :: "char \<Rightarrow> char" where
  "lower_char c = (let n = code_unit c in
     if (65 \<le> n \<and> n \<le> 90) \<or> (192 \<le> n \<and> n \<le> 222 \<and> n \<noteq> 215) then char_of (n + 32) else c)"

definition toLowerCase :: "string \<Rightarrow> string" where
  "toLowerCase s = map lower_char s"

definition trim :: "string \<Rightarrow> string" where
  "trim s = rev (dropWhile is_space (rev (dropWhile is_space s)))"

definition startsWith :: "string \<Rightarrow> string \<Rightarrow> bool" where
  "startsWith s p = (take (length p) s = p)"

section \<open>Regular expressions\<close>

text \<open>
  Every regular expression of the module is a sequence of quantified character classes,
  some of them inside a capture group, with \<open>^\<close> and \<open>$\<close> under the \<open>m\<close> flag in one of
  them. An item \<open>Rep cls lo hi q cap\<close> repeats the class \<open>cls\<close> between \<open>lo\<close> and \<open>hi\<close> times
  (\<open>None\<close>: no upper bound), greedily or lazily, and \<open>cap\<close> says whether it is a capture group.
\<close>

datatype quant = Greedy | Lazy

datatype item =
    Rep "char \<Rightarrow> bool" nat "nat option" quant bool
  | Bol
  | Eol

definition lit :: "char \<Rightarrow> item" where
  "lit c = Rep (\<lambda>x. x = c) 1 (Some 1) Greedy False"

text \<open>
  The repetition counts the backtracking matcher tries for one item, in its order of
  preference: a greedy quantifier from the longest run down, a lazy one from the shortest up.
\<close>

definition counts :: "(char \<Rightarrow> bool) \<Rightarrow> nat \<Rightarrow> nat option \<Rightarrow> quant \<Rightarrow> string \<Rightarrow> nat list" where
  "counts cls lo hi q s =
     (let avail = length (takeWhile cls s);
          top = (case hi of None \<Rightarrow> avail | Some h \<Rightarrow> min h avail)
      in case q of Lazy \<Rightarrow> [lo ..< Suc top] | Greedy \<Rightarrow> rev [lo ..< Suc top])"

fun first_some :: "('a \<Rightarrow> 'b option) \<Rightarrow> 'a list \<Rightarrow> 'b option" where
  "first_some f [] = None"
| "first_some f (x # xs) = (case f x of Some y \<Rightarrow> Some y | None \<Rightarrow> first_some f xs)"

text \<open>The character before the current position, after \<open>n\<close> more characters are consumed.\<close>

definition prev_after :: "char option \<Rightarrow> string \<Rightarrow> nat \<Rightarrow> char option" where
  "prev_after prev s n = (if n = 0 then prev else Some (s ! (n - 1)))"

text \<open>
  \<open>match_seq re prev s\<close> matches \<open>re\<close> at the start of \<open>s\<close>, where \<open>prev\<close> is the character
  before \<open>s\<close> in the subject (\<open>None\<close> at its start). The result is the first match in
  backtracking order: the captured substrings and the number of characters matched.
\<close>

primrec match_seq :: "item list \<Rightarrow> char option \<Rightarrow> string \<Rightarrow> (string list \<times> nat) option" where
  "match_seq [] prev s = Some ([], 0)"
| "match_seq (it # its) prev s =
    (case it of
       Bol \<Rightarrow>
         if (case prev of None \<Rightarrow> True | Some c \<Rightarrow> is_line_terminator c)
         then match_seq its prev s else None
     | Eol \<Rightarrow>
         if (case s of [] \<Rightarrow> True | c # _ \<Rightarrow> is_line_terminator c)
         then match_seq its prev s else None
     | Rep cls lo hi q cap \<Rightarrow>
         first_some
           (\<lambda>n. case match_seq its (prev_after prev s n) (drop n s) of
                  None \<Rightarrow> None
                | Some (caps, k) \<Rightarrow> Some ((if cap then [take n s] else []) @ caps, n + k))
           (counts cls lo hi q s))"

text \<open>
  \<open>String.prototype.replace\<close> with a global regular expression: matches are replaced from
  left to right, the search resuming where the previous match ended; after an empty match
  one character is copied.
\<close>

function replace_all :: "item list \<Rightarrow> (string list \<Rightarrow> string) \<Rightarrow> char option \<Rightarrow> string \<Rightarrow> string" where
  "replace_all re f prev [] =
    (case match_seq re prev [] of None \<Rightarrow> [] | Some (caps, n) \<Rightarrow> f caps)"
| "replace_all re f prev (c # cs) =
    (case match_seq re prev (c # cs) of
       None \<Rightarrow> c # replace_all re f (Some c) cs
     | Some (caps, n) \<Rightarrow>
         if n = 0 then f caps @ c # replace_all re f (Some c) cs
         else f caps @ replace_all re f (prev_after prev (c # cs) n) (drop n (c # cs)))"
  by pat_completeness auto
termination
  by (relation "measure (\<lambda>(re, f, prev, s). length s)") auto

text \<open>The replacement strings of the module: \<open>''\<close>, \<open>'$1'\<close> and a fixed string.\<close>

definition to_empty :: "string list \<Rightarrow> string" where
  "to_empty caps = []"

definition to_group1 :: "string list \<Rightarrow> string" where
  "to_group1 caps = (case caps of [] \<Rightarrow> [] | g # _ \<Rightarrow> g)"

definition to_const :: "string \<Rightarrow> string list \<Rightarrow> string" where
  "to_const r caps = r"


text \<open>
  \<open>String.prototype.split\<close> with a regular expression and no limit. \<open>cur\<close> is the piece
  being collected; a match that is empty and starts the piece is skipped, any other match
  closes the piece (and its captures are spliced into the result).
\<close>

function split_loop :: "item list \<Rightarrow> string \<Rightarrow> char option \<Rightarrow> string \<Rightarrow> string list" where
  "split_loop re cur prev [] = [cur]"
| "split_loop re cur prev (c # cs) =
    (case match_seq re prev (c # cs) of
       None \<Rightarrow> split_loop re (cur @ [c]) (Some c) cs
     | Some (caps, n) \<Rightarrow>
         if n = 0 then
           (if cur = [] then split_loop re [c] (Some c) cs
            else cur # caps @ split_loop re [] prev (c # cs))
         else cur # caps @ split_loop re [] (prev_after prev (c # cs) n) (drop n (c # cs)))"
  by pat_completeness auto
termination
  by (relation "measures [\<lambda>(re, cur, prev, s). length s, \<lambda>(re, cur, prev, s). length cur]") auto

definition split_re :: "item list \<Rightarrow> string \<Rightarrow> string list" where
  "split_re re s =
     (if s = [] then (case match_seq re None [] of None \<Rightarrow> [[]] | Some m \<Rightarrow> [])
      else split_loop re [] None s)"

section \<open>Metadata extractor\<close>

subsection \<open>Heading outline\<close>

text \<open>
  An entry of the outline. The fields are \<open>level\<close>, \<open>text\<close> and \<open>id\<close> in the source; \<open>text\<close>
  and \<open>id\<close> are taken in Isabelle, so the three carry the prefix \<open>h_\<close>.
\<close>

record heading =
  h_level :: nat
  h_text :: string
  h_id :: string

text \<open>\<open>text.toLowerCase().replace(/[^\w]+/g, '-')\<close>\<close>

definition nonword_run :: "item list" where
  "nonword_run = [Rep (\<lambda>c. \<not> is_word c) 1 None Greedy False]"

definition slug :: "string \<Rightarrow> string" where
  "slug t = replace_all nonword_run (to_const ''-'') None (toLowerCase t)"




subsection \<open>Word count\<close>

text \<open>The regular expressions of \<open>countWords\<close>, in the order of the chain of \<open>replace\<close> calls.\<close>

definition re_heading_marker :: "item list" where \<comment> \<open>\<open>/#{1,6}\s+/g\<close>\<close>
  "re_heading_marker =
     [Rep (\<lambda>c. c = CHR ''#'') 1 (Some 6) Greedy False, Rep is_space 1 None Greedy False]"

definition re_bold :: "item list" where \<comment> \<open>\<open>/\*\*(.+?)\*\*/g\<close>\<close>
  "re_bold =
     [lit (CHR ''*''), lit (CHR ''*''), Rep is_dot 1 None Lazy True,
      lit (CHR ''*''), lit (CHR ''*'')]"

definition re_italic :: "item list" where \<comment> \<open>\<open>/\*(.+?)\*/g\<close>\<close>
  "re_italic = [lit (CHR ''*''), Rep is_dot 1 None Lazy True, lit (CHR ''*'')]"

definition re_inline_code :: "item list" where \<comment> \<open>\<open>/`(.+?)`/g\<close>\<close>
  "re_inline_code = [lit (CHR 0x60), Rep is_dot 1 None Lazy True, lit (CHR 0x60)]"

definition re_code_block :: "item list" where \<comment> \<open>\<open>/```[\s\S]*?```/g\<close>\<close>
  "re_code_block =
     [lit (CHR 0x60), lit (CHR 0x60), lit (CHR 0x60),
      Rep (\<lambda>c. is_space c \<or> is_nonspace c) 0 None Lazy False,
      lit (CHR 0x60), lit (CHR 0x60), lit (CHR 0x60)]"

definition re_link :: "item list" where \<comment> \<open>\<open>/\[(.+?)\]\(.+?\)/g\<close>\<close>
  "re_link =
     [lit (CHR ''[''), Rep is_dot 1 None Lazy True, lit (CHR '']''),
      lit (CHR ''(''), Rep is_dot 1 None Lazy False, lit (CHR '')'')]"

definition re_image :: "item list" where \<comment> \<open>\<open>/!\[.*?\]\(.+?\)/g\<close>\<close>
  "re_image =
     [lit (CHR ''!''), lit (CHR ''[''), Rep is_dot 0 None Lazy False, lit (CHR '']''),
      lit (CHR ''(''), Rep is_dot 1 None Lazy False, lit (CHR '')'')]"

definition re_blockquote :: "item list" where \<comment> \<open>\<open>/>\s+/g\<close>\<close>
  "re_blockquote = [lit (CHR ''>''), Rep is_space 1 None Greedy False]"

definition re_list_marker :: "item list" where \<comment> \<open>\<open>/[-*+]\s+/g\<close>\<close>
  "re_list_marker =
     [Rep (\<lambda>c. c = CHR ''-'' \<or> c = CHR ''*'' \<or> c = CHR ''+'') 1 (Some 1) Greedy False,
      Rep is_space 1 None Greedy False]"

definition re_ordered_marker :: "item list" where \<comment> \<open>\<open>/\d+\.\s+/g\<close>\<close>
  "re_ordered_marker =
     [Rep is_digit 1 None Greedy False, lit (CHR ''.''), Rep is_space 1 None Greedy False]"

definition re_newline :: "item list" where \<comment> \<open>\<open>/\n/g\<close>\<close>
  "re_newline = [lit (CHR 0x0A)]"

definition re_spaces :: "item list" where \<comment> \<open>\<open>/\s+/\<close>\<close>
  "re_spaces = [Rep is_space 1 None Greedy False]"

text \<open>The steps of the chain, named after the comments of the source.\<close>

definition remove_headings :: "string \<Rightarrow> string" where
  "remove_headings s = replace_all re_heading_marker to_empty None s"

definition remove_bold :: "string \<Rightarrow> string" where
  "remove_bold s = replace_all re_bold to_group1 None s"

definition remove_italic :: "string \<Rightarrow> string" where
  "remove_italic s = replace_all re_italic to_group1 None s"

definition remove_inline_code :: "string \<Rightarrow> string" where
  "remove_inline_code s = replace_all re_inline_code to_group1 None s"

definition remove_code_blocks :: "string \<Rightarrow> string" where
  "remove_code_blocks s = replace_all re_code_block to_empty None s"

definition remove_links :: "string \<Rightarrow> string" where
  "remove_links s = replace_all re_link to_group1 None s"

definition remove_images :: "string \<Rightarrow> string" where
  "remove_images s = replace_all re_image to_empty None s"

definition remove_blockquotes :: "string \<Rightarrow> string" where
  "remove_blockquotes s = replace_all re_blockquote to_empty None s"

definition remove_list_markers :: "string \<Rightarrow> string" where
  "remove_list_markers s = replace_all re_list_marker to_empty None s"

definition remove_ordered_markers :: "string \<Rightarrow> string" where
  "remove_ordered_markers s = replace_all re_ordered_marker to_empty None s"

definition newlines_to_spaces :: "string \<Rightarrow> string" where
  "newlines_to_spaces s = replace_all re_newline (to_const '' '') None s"

text \<open>The text after the whole chain and \<open>trim()\<close>.\<close>

definition plainText :: "string \<Rightarrow> string" where
  "plainText markdown =
    (let t1 = remove_headings markdown;
         t2 = remove_bold t1;
         t3 = remove_italic t2;
         t4 = remove_inline_code t3;
         t5 = remove_code_blocks t4;
         t6 = remove_links t5;
         t7 = remove_images t6;
         t8 = remove_blockquotes t7;
         t9 = remove_list_markers t8;
         t10 = remove_ordered_markers t9;
         t11 = newlines_to_spaces t10
     in trim t11)"

definition countWords :: "string \<Rightarrow> nat" where
  "countWords markdown =
    (let p = plainText markdown in if p \<noteq> [] then length (split_re re_spaces p) else 0)"

subsection \<open>Reading time\<close>

text \<open>
  A number of the source is an IEEE double. The arguments of \<open>estimateReadingTime\<close> are taken
  as non-negative integers that a double holds, and \<open>wordCount / wpm\<close> is the exact quotient
  rounded to the nearest double: to 53 significant bits, a tie going to the even
  significand. \<open>round_half_even n d\<close> is the integer nearest to \<open>n / d\<close>.
\<close>

definition round_half_even :: "nat \<Rightarrow> nat \<Rightarrow> nat" where
  "round_half_even n d =
    (let q = n div d; r = n mod d
     in if 2 * r < d then q else if d < 2 * r then q + 1 else if even q then q else q + 1)"

text \<open>
  The quotient is scaled by a power of two until its significand lies between \<open>2^52\<close> and
  \<open>2^53\<close>: \<open>scale_up\<close> doubles the numerator of a quotient below \<open>2^52\<close>, \<open>scale_down\<close>
  doubles the denominator of a quotient of \<open>2^53\<close> or more; both return the power of two
  they used. The bound 2200 on the number of steps lies beyond the exponent range of a
  double and only makes the search total.
\<close>

function scale_up :: "nat \<Rightarrow> nat \<Rightarrow> nat \<Rightarrow> nat \<Rightarrow> nat \<times> nat" where
  "scale_up n p k b =
    (if 2 ^ 52 * b \<le> n \<or> 2200 \<le> k then (n, p) else scale_up (2 * n) (2 * p) (Suc k) b)"
  by pat_completeness auto
termination
  by (relation "measure (\<lambda>(n, p, k, b). 2200 - k)") auto

function scale_down :: "nat \<Rightarrow> nat \<Rightarrow> nat \<Rightarrow> nat \<Rightarrow> nat \<times> nat" where
  "scale_down a d p k =
    (if a < 2 ^ 53 * d \<or> 2200 \<le> k then (d, p) else scale_down a (2 * d) (2 * p) (Suc k))"
  by pat_completeness auto
termination
  by (relation "measure (\<lambda>(a, d, p, k). 2200 - k)") auto

text \<open>
  The double \<open>a / b\<close> for \<open>b > 0\<close>, as the real number it denotes. For integer arguments
  the quotient neither overflows nor rounds to zero, so the exponent range is left out.
\<close>

definition double_quotient :: "nat \<Rightarrow> nat \<Rightarrow> real" where
  "double_quotient a b =
    (if a = 0 then 0
     else if a < 2 ^ 53 * b then
       (case scale_up a 1 0 b of (n, p) \<Rightarrow> of_nat (round_half_even n b) / of_nat p)
     else
       (case scale_down a b 1 0 of (d, p) \<Rightarrow> of_nat (round_half_even a d * p)))"

text \<open>
  \<open>Math.ceil(wordCount / wpm)\<close>; division by zero gives \<open>Infinity\<close>, or \<open>NaN\<close> for \<open>0 / 0\<close>.
  The optional second parameter defaults to 200.
\<close>

datatype js_number = Finite int | PosInfinity | NaN

definition estimateReadingTime :: "nat \<Rightarrow> nat option \<Rightarrow> js_number" where
  "estimateReadingTime wordCount wpm_arg =
    (let wpm = (case wpm_arg of None \<Rightarrow> 200 | Some w \<Rightarrow> w)
     in if wpm = 0 then (if wordCount = 0 then NaN else PosInfinity)
        else Finite \<lceil>double_quotient wordCount wpm\<rceil>)"

section \<open>The execution environment and the libraries\<close>

text \<open>
  The module calls three libraries (the grammar engine Prism, the markdown engine marked,
  the sanitizer DOMPurify) and reads the global \<open>window\<close>. They are the fields of an
  environment. A thrown value is an \<open>Error\<close> with its message or anything else; calls to
  \<open>console.warn\<close> and \<open>console.error\<close> are left out.
\<close>

datatype js_error = Error string | NonError

datatype location = Location (origin: string)

datatype window = Window (location: "location option")

text \<open>
  An entry of \<open>Prism.languages\<close>: a grammar object, or a truthy value that is not an object
  (the registry also holds helper functions). A missing or falsy entry is \<open>None\<close>.
\<close>

datatype 'g prism_entry = Grammar 'g | NotObject

type_synonym HighlightFn = "string \<Rightarrow> string \<Rightarrow> js_error + string"

record MarkdownOptions =
  breaks :: bool
  gfm :: bool
  sanitize :: bool
  highlight :: "HighlightFn option"

text \<open>
  The render rules handed to the markdown engine. A rule that can throw returns a sum.
\<close>

record renderer =
  r_heading :: "string \<Rightarrow> nat \<Rightarrow> string"
  r_code :: "string \<Rightarrow> string option \<Rightarrow> js_error + string"
  r_codespan :: "string \<Rightarrow> string"
  r_link :: "string \<Rightarrow> string option \<Rightarrow> string \<Rightarrow> js_error + string"
  r_table :: "string \<Rightarrow> string \<Rightarrow> string"
  r_blockquote :: "string \<Rightarrow> string"
  r_list :: "string \<Rightarrow> bool \<Rightarrow> string"

text \<open>The argument of \<open>marked.setOptions\<close>.\<close>

record marked_options =
  opt_renderer :: renderer
  opt_breaks :: bool
  opt_gfm :: bool

text \<open>The second argument of \<open>DOMPurify.sanitize\<close>.\<close>

record purify_config =
  ALLOWED_TAGS :: "string list"
  ALLOWED_ATTR :: "string list"
  KEEP_CONTENT :: bool

record 'g env =
  global_window :: "window option"
  prism_languages :: "string \<Rightarrow> 'g prism_entry option"
  prism_highlight :: "string \<Rightarrow> 'g prism_entry \<Rightarrow> string \<Rightarrow> js_error + string"
  marked_parse :: "marked_options \<Rightarrow> string \<Rightarrow> js_error + string"
  dompurify :: "(string \<Rightarrow> purify_config \<Rightarrow> js_error + string) option"

section \<open>Syntax highlighter\<close>

definition languageMap :: "string \<rightharpoonup> string" where
  "languageMap = map_of
     [(''js'', ''javascript''), (''ts'', ''typescript''), (''py'', ''python''),
      (''sh'', ''bash''), (''shell'', ''bash''), (''yml'', ''yaml''),
      (''md'', ''markdown''), (''cs'', ''csharp'')]"

text \<open>
  \<open>languageMap[lang] || lang\<close>, with the eight keys of the object literal (the properties
  it inherits from \<open>Object.prototype\<close> are left out).
\<close>

definition normalizedLang :: "string \<Rightarrow> string" where
  "normalizedLang lang = (case languageMap lang of Some l \<Rightarrow> l | None \<Rightarrow> lang)"

text \<open>The chain of five \<open>replace\<close> calls that escapes \<open>& < > " '\<close>, in the order of the source.\<close>

definition re_char :: "char \<Rightarrow> item list" where
  "re_char c = [lit c]"

definition escape_html :: "string \<Rightarrow> string" where
  "escape_html code =
    (let e1 = replace_all (re_char (CHR ''&'')) (to_const ''&amp;'') None code;
         e2 = replace_all (re_char (CHR ''<'')) (to_const ''&lt;'') None e1;
         e3 = replace_all (re_char (CHR ''>'')) (to_const ''&gt;'') None e2;
         e4 = replace_all (re_char (CHR 0x22)) (to_const ''&quot;'') None e3;
         e5 = replace_all (re_char (CHR 0x27)) (to_const ''&#39;'') None e4
     in e5)"

text \<open>
  \<open>highlightCode\<close> of the copy of the module with the browser checks: the grammar is used
  when the registry entry is an object, an exception of the engine is caught, and every
  other path ends in the escaped code.
\<close>

definition highlightCode :: "'g env \<Rightarrow> string \<Rightarrow> string \<Rightarrow> string" where
  "highlightCode e code lang =
    (let nl = normalizedLang lang in
     case prism_languages e nl of
       Some (Grammar g) \<Rightarrow>
         (case prism_highlight e code (Grammar g) nl of
            Inr html \<Rightarrow> html
          | Inl err \<Rightarrow> escape_html code)
     | Some NotObject \<Rightarrow> escape_html code
     | None \<Rightarrow> escape_html code)"

text \<open>
  \<open>highlightCode\<close> of the copy of the module without the browser checks: any truthy
  registry entry is handed to the engine, and the fallback returns the code as it is.
\<close>

definition highlightCode_unguarded :: "'g env \<Rightarrow> string \<Rightarrow> string \<Rightarrow> string" where
  "highlightCode_unguarded e code lang =
    (let nl = normalizedLang lang in
     case prism_languages e nl of
       Some entry \<Rightarrow>
         (case prism_highlight e code entry nl of
            Inr html \<Rightarrow> html
          | Inl err \<Rightarrow> code)
     | None \<Rightarrow> code)"

section \<open>Renderer customization\<close>

definition isBrowser :: "'g env \<Rightarrow> bool" where
  "isBrowser e = (case global_window e of None \<Rightarrow> False | Some w \<Rightarrow> True)"

definition getCurrentOrigin :: "'g env \<Rightarrow> string" where
  "getCurrentOrigin e =
    (case global_window e of
       None \<Rightarrow> []
     | Some w \<Rightarrow> (case location w of None \<Rightarrow> [] | Some l \<Rightarrow> origin l))"

text \<open>A number inside a template literal: its decimal digits.\<close>

fun show_nat :: "nat \<Rightarrow> string" where
  "show_nat n =
    (if n < 10 then [char_of (48 + n)] else show_nat (n div 10) @ [char_of (48 + n mod 10)])"

definition heading_html :: "string \<Rightarrow> nat \<Rightarrow> string" where
  \<open>heading_html text level =
    ''<h'' @ show_nat level @ '' id="'' @ slug text @ ''" class="heading-'' @ show_nat level
      @ ''">'' @ text @ ''</h'' @ show_nat level @ ''>''\<close>

text \<open>
  The code block rule. \<open>language || 'text'\<close> takes the default for a missing and for an
  empty language; an exception of the highlighter is caught and the code escaped.
\<close>

definition code_html :: "MarkdownOptions \<Rightarrow> HighlightFn \<Rightarrow> string \<Rightarrow> string option \<Rightarrow> string" where
  \<open>code_html options builtin code language =
    (let lang = (case language of None \<Rightarrow> ''text'' | Some l \<Rightarrow> if l = [] then ''text'' else l);
         h = (case highlight options of Some f \<Rightarrow> f code lang | None \<Rightarrow> builtin code lang);
         highlighted = (case h of Inr html \<Rightarrow> html | Inl err \<Rightarrow> escape_html code)
     in [CHR 0x0A] @ ''      <div class="code-block">'' @ [CHR 0x0A]
        @ ''        <div class="code-header">'' @ [CHR 0x0A]
        @ ''          <span class="code-language">'' @ lang @ ''</span>'' @ [CHR 0x0A]
        @ ''        </div>'' @ [CHR 0x0A]
        @ ''        <pre class="language-'' @ lang @ ''"><code class="language-'' @ lang @ ''">''
        @ highlighted @ ''</code></pre>'' @ [CHR 0x0A]
        @ ''      </div>'' @ [CHR 0x0A]
        @ ''    '')\<close>

text \<open>The same rule in the copy without the browser checks: no \<open>try\<close> around the highlighter.\<close>

definition code_html_unguarded ::
  "MarkdownOptions \<Rightarrow> HighlightFn \<Rightarrow> string \<Rightarrow> string option \<Rightarrow> js_error + string" where
  \<open>code_html_unguarded options builtin code language =
    (let lang = (case language of None \<Rightarrow> ''text'' | Some l \<Rightarrow> if l = [] then ''text'' else l);
         h = (case highlight options of Some f \<Rightarrow> f code lang | None \<Rightarrow> builtin code lang)
     in case h of
          Inl err \<Rightarrow> Inl err
        | Inr highlighted \<Rightarrow> Inr (
            [CHR 0x0A] @ ''      <div class="code-block">'' @ [CHR 0x0A]
            @ ''        <div class="code-header">'' @ [CHR 0x0A]
            @ ''          <span class="code-language">'' @ lang @ ''</span>'' @ [CHR 0x0A]
            @ ''        </div>'' @ [CHR 0x0A]
            @ ''        <pre class="language-'' @ lang @ ''"><code class="language-'' @ lang @ ''">''
            @ highlighted @ ''</code></pre>'' @ [CHR 0x0A]
            @ ''      </div>'' @ [CHR 0x0A]
            @ ''    ''))\<close>

definition codespan_html :: "string \<Rightarrow> string" where
  \<open>codespan_html code = ''<code class="inline-code">'' @ code @ ''</code>''\<close>

text \<open>
  The link rule. \<open>title ? ... : ''\<close> is taken for a title that is neither \<open>null\<close> nor empty;
  \<open>isExternal\<close> is the conjunction of three tests on strings.
\<close>

definition isExternal :: "'g env \<Rightarrow> string \<Rightarrow> bool" where
  "isExternal e href =
    (let currentOrigin = getCurrentOrigin e
     in startsWith href ''http'' \<and> currentOrigin \<noteq> [] \<and> \<not> startsWith href currentOrigin)"

definition link_html :: "'g env \<Rightarrow> string \<Rightarrow> string option \<Rightarrow> string \<Rightarrow> string" where
  \<open>link_html e href title text =
    (let titleAttr = (case title of None \<Rightarrow> []
                      | Some t \<Rightarrow> if t = [] then [] else '' title="'' @ t @ ''"'');
         ext = isExternal e href;
         relAttr = (if ext then '' rel="noopener noreferrer"'' else []);
         targetAttr = (if ext then '' target="_blank"'' else [])
     in ''<a href="'' @ href @ ''"'' @ titleAttr @ relAttr @ targetAttr @ '' class="link">''
        @ text @ ''</a>'')\<close>

text \<open>
  The link rule of the copy without the browser checks:
  \<open>href.startsWith('http') && !href.startsWith(window?.location?.origin || '')\<close>. Reading the
  undeclared global \<open>window\<close> throws a \<open>ReferenceError\<close>, once the first test has passed.
\<close>

definition isExternal_unguarded :: "'g env \<Rightarrow> string \<Rightarrow> js_error + bool" where
  "isExternal_unguarded e href =
    (if startsWith href ''http'' then
       (case global_window e of
          None \<Rightarrow> Inl (Error ''window is not defined'')
        | Some w \<Rightarrow>
            Inr (\<not> startsWith href (case location w of None \<Rightarrow> [] | Some l \<Rightarrow> origin l)))
     else Inr False)"

definition link_html_unguarded ::
  "'g env \<Rightarrow> string \<Rightarrow> string option \<Rightarrow> string \<Rightarrow> js_error + string" where
  \<open>link_html_unguarded e href title text =
    (let titleAttr = (case title of None \<Rightarrow> []
                      | Some t \<Rightarrow> if t = [] then [] else '' title="'' @ t @ ''"'')
     in case isExternal_unguarded e href of
          Inl err \<Rightarrow> Inl err
        | Inr ext \<Rightarrow>
            (let relAttr = (if ext then '' rel="noopener noreferrer"'' else []);
                 targetAttr = (if ext then '' target="_blank"'' else [])
             in Inr (''<a href="'' @ href @ ''"'' @ titleAttr @ relAttr @ targetAttr
                     @ '' class="link">'' @ text @ ''</a>'')))\<close>

definition table_html :: "string \<Rightarrow> string \<Rightarrow> string" where
  \<open>table_html header body =
     [CHR 0x0A] @ ''      <div class="table-wrapper">'' @ [CHR 0x0A]
     @ ''        <table class="markdown-table">'' @ [CHR 0x0A]
     @ ''          <thead>'' @ header @ ''</thead>'' @ [CHR 0x0A]
     @ ''          <tbody>'' @ body @ ''</tbody>'' @ [CHR 0x0A]
     @ ''        </table>'' @ [CHR 0x0A]
     @ ''      </div>'' @ [CHR 0x0A]
     @ ''    ''\<close>

definition blockquote_html :: "string \<Rightarrow> string" where
  \<open>blockquote_html quote = ''<blockquote class="blockquote">'' @ quote @ ''</blockquote>''\<close>

definition list_html :: "string \<Rightarrow> bool \<Rightarrow> string" where
  \<open>list_html body ordered =
    (let tag = (if ordered then ''ol'' else ''ul'');
         className = (if ordered then ''ordered-list'' else ''unordered-list'')
     in ''<'' @ tag @ '' class="'' @ className @ ''">'' @ body @ ''</'' @ tag @ ''>'')\<close>

definition configureMarked :: "'g env \<Rightarrow> MarkdownOptions \<Rightarrow> marked_options" where
  "configureMarked e options =
    \<lparr>opt_renderer =
       \<lparr>r_heading = heading_html,
        r_code = (\<lambda>code language.
          Inr (code_html options (\<lambda>c l. Inr (highlightCode e c l)) code language)),
        r_codespan = codespan_html,
        r_link = (\<lambda>href title text. Inr (link_html e href title text)),
        r_table = table_html,
        r_blockquote = blockquote_html,
        r_list = list_html\<rparr>,
     opt_breaks = breaks options,
     opt_gfm = gfm options\<rparr>"

definition configureMarked_unguarded :: "'g env \<Rightarrow> MarkdownOptions \<Rightarrow> marked_options" where
  "configureMarked_unguarded e options =
    \<lparr>opt_renderer =
       \<lparr>r_heading = heading_html,
        r_code = code_html_unguarded options (\<lambda>c l. Inr (highlightCode_unguarded e c l)),
        r_codespan = codespan_html,
        r_link = link_html_unguarded e,
        r_table = table_html,
        r_blockquote = blockquote_html,
        r_list = list_html\<rparr>,
     opt_breaks = breaks options,
     opt_gfm = gfm options\<rparr>"

section \<open>Markdown parser adapter\<close>

definition placeholder :: string where
  \<open>placeholder = ''<p class="text-muted-foreground italic">Start typing to see preview...</p>''\<close>

definition error_html :: "js_error \<Rightarrow> string" where
  \<open>error_html err =
     ''<p class="text-red-500">Error parsing markdown: ''
     @ (case err of Error message \<Rightarrow> message | NonError \<Rightarrow> ''Unknown error'') @ ''</p>''\<close>

definition sanitize_config :: purify_config where
  "sanitize_config =
    \<lparr>ALLOWED_TAGS =
       [''h1'', ''h2'', ''h3'', ''h4'', ''h5'', ''h6'',
        ''p'', ''br'', ''strong'', ''em'', ''u'', ''s'', ''del'', ''ins'',
        ''ul'', ''ol'', ''li'', ''dl'', ''dt'', ''dd'',
        ''blockquote'', ''q'', ''cite'',
        ''code'', ''pre'', ''kbd'', ''samp'', ''var'',
        ''a'', ''img'', ''figure'', ''figcaption'',
        ''table'', ''thead'', ''tbody'', ''tfoot'', ''tr'', ''td'', ''th'', ''caption'',
        ''div'', ''span'', ''section'', ''article'', ''aside'', ''nav'', ''header'', ''footer'',
        ''hr'', ''details'', ''summary''],
     ALLOWED_ATTR =
       [''href'', ''title'', ''alt'', ''src'', ''width'', ''height'',
        ''class'', ''id'', ''lang'', ''dir'',
        ''target'', ''rel'', ''type'', ''start'', ''reversed'',
        ''open'', ''colspan'', ''rowspan'', ''scope''],
     KEEP_CONTENT = True\<rparr>"

text \<open>
  The options \<open>parseMarkdown\<close> hands to \<open>configureMarked\<close>: the three flags of the caller,
  each \<open>true\<close> when there are no options, and the highlighter of the module.
\<close>

definition parse_options :: "HighlightFn \<Rightarrow> MarkdownOptions option \<Rightarrow> MarkdownOptions" where
  "parse_options builtin options =
    \<lparr>breaks = (case options of None \<Rightarrow> True | Some opts \<Rightarrow> breaks opts),
     gfm = (case options of None \<Rightarrow> True | Some opts \<Rightarrow> gfm opts),
     sanitize = (case options of None \<Rightarrow> True | Some opts \<Rightarrow> sanitize opts),
     highlight = Some builtin\<rparr>"

text \<open>\<open>options?.sanitize !== false\<close>\<close>

definition sanitize_requested :: "MarkdownOptions option \<Rightarrow> bool" where
  "sanitize_requested options = (case options of None \<Rightarrow> True | Some opts \<Rightarrow> sanitize opts)"

text \<open>
  \<open>typeof DOMPurify !== 'undefined'\<close>, and the call \<open>DOMPurify.sanitize(html, config)\<close>,
  which throws a \<open>TypeError\<close> when \<open>DOMPurify\<close> is undefined.
\<close>

definition dompurify_defined :: "'g env \<Rightarrow> bool" where
  "dompurify_defined e = (case dompurify e of None \<Rightarrow> False | Some purify \<Rightarrow> True)"

definition DOMPurify_sanitize :: "'g env \<Rightarrow> string \<Rightarrow> purify_config \<Rightarrow> js_error + string" where
  "DOMPurify_sanitize e html config =
    (case dompurify e of
       None \<Rightarrow> Inl (Error ''Cannot read properties of undefined'')
     | Some purify \<Rightarrow> purify html config)"

text \<open>
  \<open>parseMarkdown\<close> of the copy with the browser checks. An exception of the parser or of
  the sanitizer is caught by the same handler.
\<close>

definition parseMarkdown :: "'g env \<Rightarrow> string \<Rightarrow> MarkdownOptions option \<Rightarrow> string" where
  "parseMarkdown e markdown options =
    (if trim markdown = [] then placeholder
     else
       case marked_parse e
              (configureMarked e (parse_options (\<lambda>c l. Inr (highlightCode e c l)) options))
              markdown of
         Inl err \<Rightarrow> error_html err
       | Inr html \<Rightarrow>
           if sanitize_requested options \<and> isBrowser e \<and> dompurify_defined e
           then (case DOMPurify_sanitize e html sanitize_config of
                   Inl err \<Rightarrow> error_html err
                 | Inr clean \<Rightarrow> clean)
           else html)"

text \<open>\<open>parseMarkdown\<close> of the copy without the browser checks: the sanitizer is always called.\<close>

definition parseMarkdown_unguarded :: "'g env \<Rightarrow> string \<Rightarrow> MarkdownOptions option \<Rightarrow> string" where
  "parseMarkdown_unguarded e markdown options =
    (if trim markdown = [] then placeholder
     else
       case marked_parse e
              (configureMarked_unguarded e
                 (parse_options (\<lambda>c l. Inr (highlightCode_unguarded e c l)) options))
              markdown of
         Inl err \<Rightarrow> error_html err
       | Inr html \<Rightarrow>
           if sanitize_requested options
           then (case DOMPurify_sanitize e html sanitize_config of
                   Inl err \<Rightarrow> error_html err
                 | Inr clean \<Rightarrow> clean)
           else html)"

section \<open>Notions of the specification\<close>

text \<open>The string \<open>s\<close> has \<open>p\<close> as a substring.\<close>

primrec contains :: "string \<Rightarrow> string \<Rightarrow> bool" where
  "contains [] p = (p = [])"
| "contains (c # cs) p = (if startsWith (c # cs) p then True else contains cs p)"






text \<open>Escaping \<open>& < > " '\<close> in one pass over the code.\<close>

definition escape_char :: "char \<Rightarrow> string" where
  "escape_char c =
    (if c = CHR ''&'' then ''&amp;''
     else if c = CHR ''<'' then ''&lt;''
     else if c = CHR ''>'' then ''&gt;''
     else if c = CHR 0x22 then ''&quot;''
     else if c = CHR 0x27 then ''&#39;''
     else [c])"

definition escaped :: "string \<Rightarrow> string" where
  "escaped code = concat (map escape_char code)"

text \<open>
  The origin of an absolute URL: its scheme, \<open>://\<close> and its authority. A reference
  without a scheme followed by \<open>://\<close> is relative and has none.
\<close>

definition is_alpha :: "char \<Rightarrow> bool" where
  "is_alpha c = (let n = code_unit c in (65 \<le> n \<and> n \<le> 90) \<or> (97 \<le> n \<and> n \<le> 122))"

definition is_scheme_char :: "char \<Rightarrow> bool" where
  "is_scheme_char c =
     (is_alpha c \<or> is_digit c \<or> c = CHR ''+'' \<or> c = CHR ''-'' \<or> c = CHR ''.'')"

definition in_authority :: "char \<Rightarrow> bool" where
  "in_authority c = (c \<noteq> CHR ''/'' \<and> c \<noteq> CHR ''?'' \<and> c \<noteq> CHR ''#'')"

definition url_origin :: "string \<Rightarrow> string option" where
  "url_origin href =
    (let scheme = takeWhile is_scheme_char href; rest = dropWhile is_scheme_char href
     in case scheme of
          [] \<Rightarrow> None
        | c # cs \<Rightarrow>
            if is_alpha c \<and> startsWith rest ''://''
            then Some (scheme @ ''://'' @ takeWhile in_authority (drop 3 rest))
            else None)"

text \<open>The two attributes of an external link, as they appear in the anchor.\<close>

definition has_target_blank :: "string \<Rightarrow> bool" where
  \<open>has_target_blank html = contains html '' target="_blank"''\<close>

definition has_rel_noopener :: "string \<Rightarrow> bool" where
  \<open>has_rel_noopener html = contains html '' rel="noopener noreferrer"''\<close>

text \<open>
  The anchor the link rule is expected to write: with a \<open>title\<close> attribute when the title is
  a non-empty string, and with or without the two attributes of an external link.
\<close>

definition title_attr :: "string option \<Rightarrow> string" where
  \<open>title_attr title =
    (case title of None \<Rightarrow> [] | Some t \<Rightarrow> if t = [] then [] else '' title="'' @ t @ ''"'')\<close>

definition plain_anchor :: "string \<Rightarrow> string option \<Rightarrow> string \<Rightarrow> string" where
  \<open>plain_anchor href title text =
     ''<a href="'' @ href @ ''"'' @ title_attr title @ '' class="link">'' @ text @ ''</a>''\<close>

definition external_anchor :: "string \<Rightarrow> string option \<Rightarrow> string \<Rightarrow> string" where
  \<open>external_anchor href title text =
     ''<a href="'' @ href @ ''"'' @ title_attr title
     @ '' rel="noopener noreferrer" target="_blank" class="link">'' @ text @ ''</a>''\<close>

text \<open>What follows the origin in a URL of that origin: nothing, a path, a query or a fragment.\<close>

definition ends_authority :: "string \<Rightarrow> bool" where
  "ends_authority rest =
    (case rest of [] \<Rightarrow> True | c # cs \<Rightarrow> c = CHR ''/'' \<or> c = CHR ''?'' \<or> c = CHR ''#'')"

text \<open>A string of \<open>'>'\<close> followed by whitespace somewhere.\<close>

fun has_quote_marker :: "string \<Rightarrow> bool" where
  "has_quote_marker (c # d # cs) =
     (if c = CHR ''>'' \<and> is_space d then True else has_quote_marker (d # cs))"
| "has_quote_marker cs = False"

text \<open>
  The claim about the blockquote step in executable form: every \<open>'>'\<close> that is followed by
  whitespace is deleted with that whitespace, wherever it stands.
\<close>

function drop_quote_markers :: "string \<Rightarrow> string" where
  "drop_quote_markers [] = []"
| "drop_quote_markers (c # cs) =
     (if c = CHR ''>'' \<and> takeWhile is_space cs \<noteq> [] then drop_quote_markers (dropWhile is_space cs)
      else c # drop_quote_markers cs)"
  by pat_completeness auto
termination
  by (relation "measure length") (auto simp: length_dropWhile_le less_Suc_eq_le)










section \<open>Auxiliary notions\<close>



section \<open>Sample environments\<close>

text \<open>
  Two concrete environments for the examples: a server without \<open>window\<close>, and a browser
  page at \<open>https://example.com\<close>. The registry holds the grammars the module imports and
  the helper functions of the engine. The stand-in for the markdown engine passes a line
  of raw HTML through, as the engine does with an HTML block, and makes a paragraph of
  any other line; the stand-in for the sanitizer keeps no markup at all.
\<close>

definition sample_registry :: "string \<Rightarrow> string prism_entry option" where
  "sample_registry l =
    (if List.member
          [''markup'', ''css'', ''clike'', ''javascript'', ''typescript'', ''jsx'', ''tsx'',
           ''scss'', ''json'', ''bash'', ''python'', ''java'', ''csharp'', ''sql'', ''yaml'',
           ''markdown'', ''markup-templating'', ''php''] l
     then Some (Grammar l)
     else if List.member [''extend'', ''insertBefore'', ''DFS''] l then Some NotObject
     else None)"

definition sample_parser :: "marked_options \<Rightarrow> string \<Rightarrow> js_error + string" where
  "sample_parser opts markdown =
     Inr (if startsWith markdown ''<'' then markdown else ''<p>'' @ markdown @ ''</p>'' @ [CHR 0x0A])"

definition sample_sanitizer :: "string \<Rightarrow> purify_config \<Rightarrow> js_error + string" where
  "sample_sanitizer html config = Inr (escape_html html)"

definition server_env :: "string env" where
  "server_env =
    \<lparr>global_window = None,
     prism_languages = sample_registry,
     prism_highlight = (\<lambda>code grammar lang. Inr (escape_html code)),
     marked_parse = sample_parser,
     dompurify = Some sample_sanitizer\<rparr>"

definition browser_env :: "string env" where
  "browser_env = server_env\<lparr>global_window := Some (Window (Some (Location ''https://example.com'')))\<rparr>"

definition all_on :: MarkdownOptions where
  "all_on = \<lparr>breaks = True, gfm = True, sanitize = True, highlight = None\<rparr>"

section \<open>Basic facts\<close>

lemma trim_blank:
  assumes "list_all is_space m"
  shows "trim m = []"
proof -
  have h: "dropWhile is_space m = []"
    using assms by (simp add: list_all_iff)
  show ?thesis
    unfolding trim_def h by simp
qed

lemma to_const_apply: "to_const r caps = r"
  by (simp add: to_const_def)

lemma match_char:
  "match_seq (re_char c) prev s =
     (case s of [] \<Rightarrow> None | x # xs \<Rightarrow> if x = c then Some ([], 1) else None)"
  by (cases s) (simp_all add: re_char_def lit_def counts_def)

lemma replace_char:
  "replace_all (re_char c) f prev s = concat (map (\<lambda>x. if x = c then f [] else [x]) s)"
proof (induction s arbitrary: prev)
  case Nil
  show ?case by (simp add: match_char)
next
  case (Cons x xs)
  show ?case by (simp add: match_char Cons prev_after_def)
qed

lemma concat_map_twice:
  "concat (map f (concat (map g s))) = concat (map (\<lambda>x. concat (map f (g x))) s)"
  by (induction s) simp_all

text \<open>The chain of five replacements is the one-pass escaping: no step touches what an
  earlier step has written.\<close>

lemma escape_html_escaped: "escape_html code = escaped code"
proof -
  have "escape_html code = concat (map (\<lambda>x.
      concat (map (\<lambda>x. if x = CHR 0x27 then ''&#39;'' else [x])
      (concat (map (\<lambda>x. if x = CHR 0x22 then ''&quot;'' else [x])
      (concat (map (\<lambda>x. if x = CHR ''>'' then ''&gt;'' else [x])
      (concat (map (\<lambda>x. if x = CHR ''<'' then ''&lt;'' else [x])
         (if x = CHR ''&'' then ''&amp;'' else [x]))))))))) code)"
    unfolding escape_html_def to_const_def
    by (simp add: replace_char concat_map_twice)
  also have "\<dots> = concat (map escape_char code)"
    by (rule arg_cong[where f = concat], rule map_cong[OF refl]) (simp add: escape_char_def)
  finally show ?thesis
    by (simp add: escaped_def)
qed

lemma escaped_no_markup:
  "c \<in> set (escaped code) \<Longrightarrow> c \<noteq> CHR ''<'' \<and> c \<noteq> CHR ''>'' \<and> c \<noteq> CHR 0x22 \<and> c \<noteq> CHR 0x27"
  by (induction code) (auto simp: escaped_def escape_char_def split: if_splits)

text \<open>
  In the copy with the browser checks, a language without a grammar object in the registry
  gives the escaped code, whatever the engine would do.
\<close>

lemma highlightCode_unregistered:
  assumes "\<And>g. prism_languages e (normalizedLang lang) \<noteq> Some (Grammar g)"
  shows "highlightCode e code lang = escaped code"
  using assms
  by (auto simp: highlightCode_def Let_def escape_html_escaped
           split: option.splits prism_entry.splits sum.splits)









lemma code_html_highlight:
  "highlight o1 = highlight o2 \<Longrightarrow> code_html o1 = code_html o2"
  by (rule ext)+ (simp add: code_html_def)

lemma configureMarked_sanitize:
  "configureMarked e (parse_options b (Some (opts\<lparr>sanitize := s\<rparr>)))
     = configureMarked e (parse_options b (Some opts))"
  by (simp add: configureMarked_def parse_options_def
        code_html_highlight [of "\<lparr>breaks = breaks opts, gfm = gfm opts, sanitize = s, highlight = Some b\<rparr>"
          "\<lparr>breaks = breaks opts, gfm = gfm opts, sanitize = sanitize opts, highlight = Some b\<rparr>"])

text \<open>With a \<open>window\<close>, the link rules of the two copies write the same anchor.\<close>

lemma link_html_unguarded_browser:
  "global_window e = Some w \<Longrightarrow>
     link_html_unguarded e href title text = Inr (link_html e href title text)"
  by (cases "location w")
     (auto simp add: link_html_unguarded_def isExternal_unguarded_def link_html_def
        isExternal_def getCurrentOrigin_def Let_def startsWith_def)


section \<open>The matcher\<close>


lemma first_some_hd: "f x = Some y \<Longrightarrow> first_some f (x # xs) = Some y"
  by simp

lemma counts_greedy:
  "counts cls lo hi Greedy s =
     rev [lo ..< Suc (case hi of None \<Rightarrow> length (takeWhile cls s) | Some h \<Rightarrow> min h (length (takeWhile cls s)))]"
  by (simp add: counts_def Let_def)

lemma rev_upt_top: "lo \<le> m \<Longrightarrow> rev [lo ..< Suc m] = m # rev [lo ..< m]"
  by simp


text \<open>A single class under a greedy plus.\<close>
lemma match_plus:
  "match_seq [Rep cls (Suc 0) None Greedy False] prev s =
     (if takeWhile cls s = [] then None else Some ([], length (takeWhile cls s)))"
proof (cases "takeWhile cls s = []")
  case True
  then show ?thesis by (simp add: counts_greedy)
next
  case False
  then have "1 \<le> length (takeWhile cls s)" by (cases "takeWhile cls s") simp_all
  then show ?thesis using False by (simp add: counts_greedy rev_upt_top del: upt_Suc)
qed

lemma match_lit_then:
  "match_seq (lit c # its) prev s =
     (case s of [] \<Rightarrow> None
      | x # xs \<Rightarrow> if x = c then (case match_seq its (Some x) xs of None \<Rightarrow> None | Some (caps, k) \<Rightarrow> Some (caps, Suc k)) else None)"
  by (cases s) (simp_all add: lit_def counts_greedy prev_after_def split: option.splits)

lemma match_blockquote:
  "match_seq re_blockquote prev s =
    (case s of [] \<Rightarrow> None
     | c # cs \<Rightarrow> if c = CHR ''>'' \<and> takeWhile is_space cs \<noteq> []
                then Some ([], Suc (length (takeWhile is_space cs))) else None)"
  by (cases s) (simp_all add: re_blockquote_def match_lit_then match_plus del: match_seq.simps)

lemma drop_takeWhile: "drop (length (takeWhile P xs)) xs = dropWhile P xs"
  by (induction xs) simp_all

lemma remove_blockquotes_aux:
  "replace_all re_blockquote to_empty prev s = drop_quote_markers s"
proof (induction s arbitrary: prev rule: drop_quote_markers.induct)
  case 1
  show ?case by (simp add: match_blockquote)
next
  case (2 c cs)
  show ?case
  proof (cases "c = CHR ''>'' \<and> takeWhile is_space cs \<noteq> []")
    case True
    then show ?thesis using 2(1)[OF True]
      by (simp add: match_blockquote to_empty_def drop_takeWhile)
  next
    case False
    then show ?thesis using 2(2)[OF False]
      by (auto simp add: match_blockquote)
  qed
qed

lemma drop_quote_markers_head:
  "(case s of [] \<Rightarrow> True | c # cs \<Rightarrow> \<not> is_space c) \<Longrightarrow>
   (case drop_quote_markers s of [] \<Rightarrow> True | c # cs \<Rightarrow> \<not> is_space c)"
proof (induction s rule: drop_quote_markers.induct)
  case 1
  show ?case by simp
next
  case (2 c cs)
  show ?case
  proof (cases "c = CHR ''>'' \<and> takeWhile is_space cs \<noteq> []")
    case True
    have "case dropWhile is_space cs of [] \<Rightarrow> True | c # cs \<Rightarrow> \<not> is_space c"
      by (metis (mono_tags, lifting) dropWhile_eq_Cons_conv list.case_eq_if list.collapse list.sel(1))
    from 2(1)[OF True this] True show ?thesis by simp
  next
    case False
    with 2(3) show ?thesis by auto
  qed
qed


lemma no_quote_marker_left: "\<not> has_quote_marker (drop_quote_markers s)"
proof (induction s rule: drop_quote_markers.induct)
  case 1
  show ?case by simp
next
  case (2 c cs)
  show ?case
  proof (cases "c = CHR ''>'' \<and> takeWhile is_space cs \<noteq> []")
    case True
    with 2(1) show ?thesis by simp
  next
    case False
    have hd_ok: "c = CHR ''>'' \<Longrightarrow> (case drop_quote_markers cs of [] \<Rightarrow> True | d # ds \<Rightarrow> \<not> is_space d)"
    proof -
      assume "c = CHR ''>''"
      with False have "takeWhile is_space cs = []" by simp
      then have "case cs of [] \<Rightarrow> True | d # ds \<Rightarrow> \<not> is_space d"
        by (cases cs) (auto split: if_splits)
      then show ?thesis by (rule drop_quote_markers_head)
    qed
    show ?thesis
    proof (cases "drop_quote_markers cs")
      case Nil
      with False show ?thesis by auto
    next
      case (Cons d ds)
      with False 2(2) hd_ok show ?thesis by auto
    qed
  qed
qed







section \<open>The heading expression\<close>






















section \<open>Further facts about the two copies\<close>

text \<open>
  The link step of \<open>countWords\<close> runs before the image step and takes the bracket part of
  an image, so the image step finds nothing to remove.
\<close>

lemma countWords_image:
  "remove_links ''![a cat](cat.png)'' = ''!a cat'' \<and> countWords ''![a cat](cat.png)'' = 2"
  by code_simp

text \<open>
  In the copy without the browser checks the sanitizer is called whenever it is requested.
\<close>

lemma parseMarkdown_unguarded_sanitized:
  assumes "dompurify e = Some purify" and "sanitize opts"
    and "marked_parse e
           (configureMarked_unguarded e
              (parse_options (\<lambda>c l. Inr (highlightCode_unguarded e c l)) (Some opts)))
           markdown = Inr html"
    and "purify html sanitize_config = Inr clean"
  shows "parseMarkdown_unguarded e markdown (Some opts)
           = (if trim markdown = [] then placeholder else clean)"
  using assms
  by (simp add: parseMarkdown_unguarded_def sanitize_requested_def DOMPurify_sanitize_def)

section \<open>The claims\<close>




text \<open>
  C2. The claim: with sanitization requested and no DOM, \<open>parseMarkdown\<close> does not return
  the unsanitized HTML of the parser as if it had been cleaned. On the server the result
  for an \<open>img\<close> element with an \<open>onerror\<close> attribute is the HTML of the parser, character
  for character, and the same string as with \<open>sanitize: false\<close>.
\<close>

theorem parseMarkdown_server_unsanitized_counterexample:
  "\<not> isBrowser server_env \<and> sanitize_requested (Some all_on)
   \<and> marked_parse server_env
        (configureMarked server_env
           (parse_options (\<lambda>c l. Inr (highlightCode server_env c l)) (Some all_on)))
        ''<img src=x onerror=alert(1)>'' = Inr ''<img src=x onerror=alert(1)>''
   \<and> parseMarkdown server_env ''<img src=x onerror=alert(1)>'' (Some all_on)
       = ''<img src=x onerror=alert(1)>''
   \<and> parseMarkdown server_env ''<img src=x onerror=alert(1)>''
         (Some (all_on\<lparr>sanitize := False\<rparr>))
       = ''<img src=x onerror=alert(1)>''"
  by code_simp

text \<open>
  C2, amended. Without a \<open>window\<close>, \<open>parseMarkdown\<close> skips the sanitizer: for an input that
  is not blank and that the parser accepts, it returns the HTML of the parser unchanged,
  whatever the options; the result with \<open>sanitize: true\<close> is the result with
  \<open>sanitize: false\<close>.
\<close>

theorem parseMarkdown_without_dom:
  assumes "\<not> isBrowser e"
  shows "(trim markdown \<noteq> [] \<and>
          marked_parse e
            (configureMarked e (parse_options (\<lambda>c l. Inr (highlightCode e c l)) options))
            markdown = Inr html
          \<longrightarrow> parseMarkdown e markdown options = html)
         \<and> parseMarkdown e markdown (Some (opts\<lparr>sanitize := True\<rparr>))
             = parseMarkdown e markdown (Some (opts\<lparr>sanitize := False\<rparr>))"
  using assms
  by (simp add: parseMarkdown_def configureMarked_sanitize cong: sum.case_cong)

theorem parseMarkdown_without_dom_witness:
  "\<not> isBrowser server_env \<and> trim ''Hello'' \<noteq> []
   \<and> parseMarkdown server_env ''Hello'' (Some all_on) = ''<p>Hello</p>'' @ [CHR 0x0A]"
proof -
  have h1: "\<not> isBrowser server_env"
    by code_simp
  have h2: "trim ''Hello'' \<noteq> []"
    by code_simp
  have h3: "marked_parse server_env
              (configureMarked server_env
                 (parse_options (\<lambda>c l. Inr (highlightCode server_env c l)) (Some all_on)))
              ''Hello'' = Inr (''<p>Hello</p>'' @ [CHR 0x0A])"
    by (simp add: server_env_def sample_parser_def startsWith_def)
  show ?thesis
    using h1 h2 h3
      parseMarkdown_without_dom [OF h1, of "''Hello''" "Some all_on" "''<p>Hello</p>'' @ [CHR 0x0A]"]
    by blast
qed

text \<open>
  C3, on the copy of the module without the browser checks. The claim: for a language tag
  whose normalized form is not registered with the grammar engine, such as
  \<open>brainfuck-v2\<close>, \<open>highlightCode\<close> returns the code with \<open>& < > " '\<close> escaped. This
  copy returns the code as it is: the tag is not in the registry, the code \<open><b>x</b>\<close>
  comes back unescaped, and the other copy returns it escaped
  (\<open>highlightCode_unregistered\<close> for every environment).
\<close>

theorem highlightCode_unguarded_unescaped:
  "prism_languages server_env (normalizedLang ''brainfuck-v2'') = None
   \<and> highlightCode_unguarded server_env ''<b>x</b>'' ''brainfuck-v2'' = ''<b>x</b>''
   \<and> highlightCode server_env ''<b>x</b>'' ''brainfuck-v2'' = ''&lt;b&gt;x&lt;/b&gt;''"
  by code_simp

text \<open>
  C4. The claim: the content of every fenced code block is dropped, so its words add
  nothing to the count. The inline-code step runs before the code-block step and rewrites
  each fence \<open>```\<close> to a single backquote, so the code-block step finds no fence: the
  block with the two words \<open>foo bar\<close> counts four words (the two words and the two
  backquotes left of the fences).
\<close>

theorem countWords_fenced_block:
  "remove_inline_code ''```\<newline>foo bar\<newline>```'' = ''`\<newline>foo bar\<newline>`''
   \<and> countWords ''```\<newline>foo bar\<newline>```'' = 4"
  by code_simp

text \<open>
  C5. The claim: a \<open>highlight\<close> function in the options of \<open>parseMarkdown\<close> replaces the
  built-in highlighter in the code block rule. \<open>parseMarkdown\<close> hands its own highlighter
  to \<open>configureMarked\<close> in every call, so the function of the caller is never used: the
  result is the same whatever the \<open>highlight\<close> field holds, in both copies of the module.
  With a caller's function that returns \<open>CUSTOM\<close>, the code rule handed to the markdown
  engine still writes the escaped code of the built-in highlighter.
\<close>

theorem parseMarkdown_ignores_highlight:
  "parseMarkdown e markdown (Some (opts\<lparr>highlight := h\<rparr>)) = parseMarkdown e markdown (Some opts)
   \<and> parseMarkdown_unguarded e markdown (Some (opts\<lparr>highlight := h\<rparr>))
       = parseMarkdown_unguarded e markdown (Some opts)
   \<and> (case r_code (opt_renderer (configureMarked server_env
                (parse_options (\<lambda>c l. Inr (highlightCode server_env c l))
                   (Some (all_on\<lparr>highlight := Some (\<lambda>c l. Inr ''CUSTOM'')\<rparr>)))))
              ''x<y'' (Some ''brainfuck-v2'') of
         Inl err \<Rightarrow> False
       | Inr html \<Rightarrow> contains html ''x&lt;y'' \<and> \<not> contains html ''CUSTOM'')"
proof -
  have a: "parseMarkdown e markdown (Some (opts\<lparr>highlight := h\<rparr>)) = parseMarkdown e markdown (Some opts)"
    by (simp add: parseMarkdown_def parse_options_def sanitize_requested_def cong: sum.case_cong)
  have b: "parseMarkdown_unguarded e markdown (Some (opts\<lparr>highlight := h\<rparr>))
       = parseMarkdown_unguarded e markdown (Some opts)"
    by (simp add: parseMarkdown_unguarded_def parse_options_def sanitize_requested_def cong: sum.case_cong)
  have c: "(case r_code (opt_renderer (configureMarked server_env
                (parse_options (\<lambda>c l. Inr (highlightCode server_env c l))
                   (Some (all_on\<lparr>highlight := Some (\<lambda>c l. Inr ''CUSTOM'')\<rparr>)))))
              ''x<y'' (Some ''brainfuck-v2'') of
         Inl err \<Rightarrow> False
       | Inr html \<Rightarrow> contains html ''x&lt;y'' \<and> \<not> contains html ''CUSTOM'')"
    by code_simp
  from a b c show ?thesis by (intro conjI)
qed

text \<open>
  C6. For every environment and every options argument, \<open>parseMarkdown\<close> on an empty or
  whitespace-only input returns the fixed placeholder paragraph, an italic prompt to start
  typing and not the empty string; this holds in both copies of the module.
\<close>

theorem parseMarkdown_blank:
  assumes "list_all is_space markdown"
  shows "parseMarkdown e markdown options = placeholder
         \<and> parseMarkdown_unguarded e markdown options = placeholder
         \<and> placeholder \<noteq> []
         \<and> contains placeholder ''italic'' \<and> contains placeholder ''Start typing''"
proof -
  have p: "contains placeholder ''italic'' \<and> contains placeholder ''Start typing''"
    by code_simp
  have b: "trim markdown = []"
    using assms by (rule trim_blank)
  show ?thesis
    using p by (simp add: parseMarkdown_def parseMarkdown_unguarded_def b) (simp add: placeholder_def)
qed

theorem parseMarkdown_blank_witness:
  "list_all is_space ''   ''
   \<and> parseMarkdown browser_env ''   '' (Some all_on) = placeholder
   \<and> parseMarkdown_unguarded browser_env ''   '' (Some all_on) = placeholder
   \<and> parseMarkdown server_env [] None = placeholder
   \<and> placeholder \<noteq> []"
proof -
  have h: "list_all is_space ''   ''"
    by (simp add: is_space_def code_unit_def)
  have n: "list_all is_space []"
    by simp
  show ?thesis
    using h parseMarkdown_blank [OF h, of browser_env "Some all_on"]
      parseMarkdown_blank [OF n, of server_env None]
    by blast
qed

text \<open>
  C7. The claim: an absolute URL of another origin gets \<open>target\<close> and \<open>rel\<close>, a relative or
  same-origin href gets neither. The rule tests the prefix \<open>http\<close>, not the form of the
  URL: on a page of \<open>https://example.com\<close> the relative href \<open>httpdocs/intro.html\<close> gets
  both attributes, and the absolute \<open>ftp://files.example.org/a.txt\<close> gets neither.
\<close>

theorem link_html_prefix_counterexample:
  "getCurrentOrigin browser_env = ''https://example.com''
   \<and> url_origin ''httpdocs/intro.html'' = None
   \<and> has_target_blank (link_html browser_env ''httpdocs/intro.html'' None ''Docs'')
   \<and> has_rel_noopener (link_html browser_env ''httpdocs/intro.html'' None ''Docs'')
   \<and> url_origin ''ftp://files.example.org/a.txt'' = Some ''ftp://files.example.org''
   \<and> \<not> has_target_blank (link_html browser_env ''ftp://files.example.org/a.txt'' None ''File'')
   \<and> \<not> has_rel_noopener (link_html browser_env ''ftp://files.example.org/a.txt'' None ''File'')"
  by code_simp

text \<open>
  C7, amended. With a page origin available, an href that starts with \<open>http\<close> and does not
  start with the origin gets \<open>rel="noopener noreferrer"\<close> and \<open>target="_blank"\<close>; an href
  that does not start with \<open>http\<close>, any href when no origin is available, and an href made
  of the origin followed by nothing, a path, a query or a fragment get neither. For every
  href the anchor has one of these two shapes, so the \<open>title\<close> attribute is written exactly
  when the title is a non-empty string.
\<close>

theorem link_html_attributes:
  "(startsWith href ''http'' \<and> getCurrentOrigin e \<noteq> []
      \<and> \<not> startsWith href (getCurrentOrigin e)
      \<longrightarrow> link_html e href title text = external_anchor href title text)
   \<and> (\<not> startsWith href ''http'' \<longrightarrow> link_html e href title text = plain_anchor href title text)
   \<and> (getCurrentOrigin e = [] \<longrightarrow> link_html e href title text = plain_anchor href title text)
   \<and> (href = getCurrentOrigin e @ rest \<and> ends_authority rest
      \<longrightarrow> link_html e href title text = plain_anchor href title text)
   \<and> (link_html e href title text = plain_anchor href title text
      \<or> link_html e href title text = external_anchor href title text)"
  by (simp add: link_html_def isExternal_def external_anchor_def plain_anchor_def
        title_attr_def startsWith_def Let_def)

theorem link_html_attributes_witness:
  "startsWith ''https://other.org/page'' ''http'' \<and> getCurrentOrigin browser_env \<noteq> []
   \<and> \<not> startsWith ''https://other.org/page'' (getCurrentOrigin browser_env)
   \<and> link_html browser_env ''https://other.org/page'' (Some ''Other'') ''other''
       = external_anchor ''https://other.org/page'' (Some ''Other'') ''other''
   \<and> \<not> startsWith ''/docs'' ''http''
   \<and> link_html browser_env ''/docs'' None ''docs'' = plain_anchor ''/docs'' None ''docs''
   \<and> getCurrentOrigin server_env = []
   \<and> link_html server_env ''https://other.org/page'' None ''other''
       = plain_anchor ''https://other.org/page'' None ''other''
   \<and> ''https://example.com/a'' = getCurrentOrigin browser_env @ ''/a'' \<and> ends_authority ''/a''
   \<and> link_html browser_env ''https://example.com/a'' None ''a''
       = plain_anchor ''https://example.com/a'' None ''a''"
proof -
  have h1: "startsWith ''https://other.org/page'' ''http'' \<and> getCurrentOrigin browser_env \<noteq> []
            \<and> \<not> startsWith ''https://other.org/page'' (getCurrentOrigin browser_env)"
    by code_simp
  have h2: "\<not> startsWith ''/docs'' ''http''"
    by code_simp
  have h3: "getCurrentOrigin server_env = []"
    by code_simp
  have h4: "''https://example.com/a'' = getCurrentOrigin browser_env @ ''/a''
            \<and> ends_authority ''/a''"
    by code_simp
  note t = link_html_attributes [THEN conjunct1, THEN mp]
    link_html_attributes [THEN conjunct2, THEN conjunct1, THEN mp]
    link_html_attributes [THEN conjunct2, THEN conjunct2, THEN conjunct1, THEN mp]
    link_html_attributes [THEN conjunct2, THEN conjunct2, THEN conjunct2, THEN conjunct1, THEN mp]
  show ?thesis
    by (intro conjI t(1) [OF h1] t(2) [OF h2] t(3) [OF h3] t(4) [OF h4]
          h1 [THEN conjunct1] h1 [THEN conjunct2, THEN conjunct1] h1 [THEN conjunct2, THEN conjunct2]
          h2 h3 h4 [THEN conjunct1] h4 [THEN conjunct2])
qed



text \<open>
  C9. The claim: for every non-negative integer word count and positive rate,
  \<open>estimateReadingTime\<close> is the ceiling of their quotient. The quotient is a double: for
  \<open>wordCount = 2^54\<close> and \<open>wpm = 3\<close> it is rounded down to an integer, and the result is one
  less than the ceiling of the exact quotient.
\<close>

theorem estimateReadingTime_double_counterexample:
  "estimateReadingTime 18014398509481984 (Some 3) = Finite 6004799503160661
   \<and> \<lceil>real 18014398509481984 / real 3\<rceil> = (6004799503160662 :: int)"
  by (simp add: estimateReadingTime_def double_quotient_def round_half_even_def)



text \<open>
  C10. The blockquote step of \<open>countWords\<close> deletes every \<open>'>'\<close> that is followed by
  whitespace, with that whitespace, at any place of the text and not only at the start of
  a line: no \<open>'>'\<close> followed by whitespace is left. So \<open>"5 > 3"\<close> becomes \<open>"5 3"\<close> and
  \<open>countWords("5 > 3")\<close> is 2.
\<close>

theorem remove_blockquotes_anywhere:
  "remove_blockquotes s = drop_quote_markers s
   \<and> \<not> has_quote_marker (remove_blockquotes s)
   \<and> remove_blockquotes ''5 > 3'' = ''5 3''
   \<and> countWords ''5 > 3'' = 2"
proof -
  have g: "remove_blockquotes s = drop_quote_markers s"
    by (simp add: remove_blockquotes_def remove_blockquotes_aux)
  have n: "\<not> has_quote_marker (remove_blockquotes s)"
    unfolding g by (rule no_quote_marker_left)
  have x: "remove_blockquotes ''5 > 3'' = ''5 3''"
    by code_simp
  have y: "countWords ''5 > 3'' = 2"
    by code_simp
  from g n x y show ?thesis by blast
qed

end
